theory Spec2Isabelle
  imports Complex_Main
begin

section \<open>Data model\<close>

text \<open>
  Conventions of the model.
  \<^item> A C \<open>double\<close> is a mathematical \<open>real\<close>: rounding, infinities and NaN are not
    represented, so \<open>1e-12\<close> is the rational \<open>1 / 10 ^ 12\<close>.
  \<^item> A C \<open>int\<close> extent is an \<open>int\<close>; loop counters and array indices, which only run
    over \<open>0 \<le> i < n\<close>, are \<open>nat\<close>, and the index arithmetic \<open>i * n + j\<close> does not
    overflow.
  \<^item> A pointer argument that may be \<open>NULL\<close> is an \<open>option\<close>; an output pointer is the
    cell it points to, passed in and returned.
  \<^item> A contiguous array of doubles is a \<open>real list\<close>, updated by index.
  \<^item> Every request to the system whose answer the source tests (an allocation, a pipe,
    a fork) is granted or refused by the environment; a refused request takes the
    branch the source takes.
  \<^item> A pipe transfer is value passing, and a child process always delivers its payload.
  \<^item> The clock is part of the environment: a call measures the elapsed time the
    environment gives it. Output to the terminal is not modelled.

  The struct \<open>Matrix\<close> of \<open>matrix_types.h\<close>: a name of at most 63 characters, the two
  extents and the rows of the data.
\<close>

record Matrix =
  name :: string
  rows :: int
  cols :: int
  data :: "real list list"

text \<open>
  Every place where the source asks the system for a resource and checks the answer is a
  \<open>site\<close>; the environment says which requests are granted. The indices are the loop
  counters at the request.
\<close>

datatype site =
    Workspace
  | StepArrays nat
  | RowPipe nat nat
  | RowFork nat nat
  | ParentBuf nat nat
  | ResultMatrix
  | Pids
  | ElemPipe nat
  | ElemFork nat
  | QRBuffers
  | StepPipe nat
  | StepFork nat

type_synonym resources = "site \<Rightarrow> bool"

definition MAX_NAME_LENGTH :: nat where
  "MAX_NAME_LENGTH = 64"

definition create_matrix :: "resources \<Rightarrow> string option \<Rightarrow> int \<Rightarrow> int \<Rightarrow> Matrix option" where
  "create_matrix res nm r c =
     (if r \<le> 0 \<or> c \<le> 0 then None
      else if \<not> res ResultMatrix then None
      else Some \<lparr> name = (case nm of None \<Rightarrow> [] | Some s \<Rightarrow> take (MAX_NAME_LENGTH - 1) s),
                  rows = r, cols = c,
                  data = replicate (nat r) (replicate (nat c) 0) \<rparr>)"


section \<open>Determinant by Gaussian elimination with partial pivoting\<close>

definition PIVOT_EPS :: real where
  "PIVOT_EPS = 1 / 10 ^ 12"

text \<open>
  The workspace \<open>A\<close> is the contiguous row-major copy of the matrix: entry \<open>(i, j)\<close> lives
  at index \<open>i * n + j\<close>. \<open>copy_matrix_contiguous\<close> copies \<open>n\<close> values of each of the first
  \<open>n\<close> rows.
\<close>

definition copy_matrix_contiguous :: "Matrix \<Rightarrow> real list" where
  "copy_matrix_contiguous m =
     (let n = nat (rows m) in concat (map (\<lambda>i. take n (data m ! i)) [0..<n]))"

text \<open>The pivot search of one step: the body of the loop over \<open>i\<close>, and the loop.\<close>

definition pivot_step :: "real list \<Rightarrow> nat \<Rightarrow> nat \<Rightarrow> nat \<Rightarrow> nat \<times> real \<Rightarrow> nat \<times> real" where
  "pivot_step A n k i = (\<lambda>(pivot_row, max_abs).
     let v = \<bar>A ! (i * n + k)\<bar>
     in if v > max_abs then (i, v) else (pivot_row, max_abs))"

definition pivot_search :: "real list \<Rightarrow> nat \<Rightarrow> nat \<Rightarrow> nat \<times> real" where
  "pivot_search A n k = fold (pivot_step A n k) [k + 1..<n] (k, \<bar>A ! (k * n + k)\<bar>)"

text \<open>Swapping rows \<open>k\<close> and \<open>pivot_row\<close> from column \<open>k\<close> on.\<close>

definition swap_rows :: "real list \<Rightarrow> nat \<Rightarrow> nat \<Rightarrow> nat \<Rightarrow> real list" where
  "swap_rows A n k pivot_row =
     fold (\<lambda>j A. let tmp = A ! (k * n + j)
                 in (A[k * n + j := A ! (pivot_row * n + j)])[pivot_row * n + j := tmp])
          [k..<n] A"

text \<open>The update of row \<open>i\<close> in step \<open>k\<close>, and the loop over the rows below the pivot.\<close>

definition eliminate_row :: "nat \<Rightarrow> nat \<Rightarrow> real \<Rightarrow> nat \<Rightarrow> real list \<Rightarrow> real list" where
  "eliminate_row n k akk i A =
     (let factor = A ! (i * n + k) / akk;
          A1 = A[i * n + k := 0]
      in fold (\<lambda>j A. A[i * n + j := A ! (i * n + j) - factor * A ! (k * n + j)])
              [k + 1..<n] A1)"

definition eliminate_below :: "real list \<Rightarrow> nat \<Rightarrow> nat \<Rightarrow> real list" where
  "eliminate_below A n k =
     (let akk = A ! (k * n + k) in fold (eliminate_row n k akk) [k + 1..<n] A)"

text \<open>
  The first half of the body of the loop over \<open>k\<close>: pivot search, the singularity test
  (\<open>None\<close> is the early exit) and the row swap with its sign flip.
\<close>

definition pivot_and_swap :: "nat \<Rightarrow> nat \<Rightarrow> real list \<Rightarrow> real \<Rightarrow> (real list \<times> real) option" where
  "pivot_and_swap n k A det_sign =
     (let (pivot_row, max_abs) = pivot_search A n k;
          pivot_val = A ! (pivot_row * n + k)
      in if \<bar>pivot_val\<bar> < PIVOT_EPS then None
         else if pivot_row \<noteq> k then Some (swap_rows A n k pivot_row, - det_sign)
         else Some (A, det_sign))"

definition gauss_step :: "nat \<Rightarrow> nat \<Rightarrow> real list \<Rightarrow> real \<Rightarrow> (real list \<times> real) option" where
  "gauss_step n k A det_sign =
     (case pivot_and_swap n k A det_sign of
        None \<Rightarrow> None
      | Some (A1, sign1) \<Rightarrow> Some (eliminate_below A1 n k, sign1))"

text \<open>
  The outcome of the loop over \<open>k\<close>: the early exit on a pivot below the threshold, the
  normal end with the workspace and the sign, or (in the multiprocess variant only) a
  failed request.
\<close>

datatype elim_result = Singular | Completed "real list" real | Aborted

function gauss_loop :: "nat \<Rightarrow> nat \<Rightarrow> real list \<Rightarrow> real \<Rightarrow> elim_result" where
  "gauss_loop n k A det_sign =
     (if k < n then
        (case gauss_step n k A det_sign of
           None \<Rightarrow> Singular
         | Some (A2, sign1) \<Rightarrow> gauss_loop n (Suc k) A2 sign1)
      else Completed A det_sign)"
  by pat_completeness auto
termination
  by (relation "measure (\<lambda>(n, k, A, s). n - k)") auto

declare gauss_loop.simps [simp del]

definition diag_product :: "real list \<Rightarrow> nat \<Rightarrow> real \<Rightarrow> real" where
  "diag_product A n det_sign = fold (\<lambda>i det. det * A ! (i * n + i)) [0..<n] det_sign"

text \<open>
  \<open>determinant_gauss_partial_pivot m out_det\<close>. The argument \<open>out_det\<close> is the cell the
  pointer refers to (\<open>None\<close> for a \<open>NULL\<close> pointer); the result is the return value and the
  cell afterwards.
\<close>

definition determinant_gauss_partial_pivot ::
  "resources \<Rightarrow> Matrix option \<Rightarrow> real option \<Rightarrow> int \<times> real option" where
  "determinant_gauss_partial_pivot res m out_det =
     (if m = None \<or> out_det = None then (0, out_det)
      else if rows (the m) \<noteq> cols (the m) then (0, out_det)
      else let n = nat (rows (the m)) in
        if \<not> res Workspace then (0, out_det)
        else (case gauss_loop n 0 (copy_matrix_contiguous (the m)) 1 of
                Singular \<Rightarrow> (1, Some 0)
              | Completed A det_sign \<Rightarrow> (1, Some (diag_product A n det_sign))
              | Aborted \<Rightarrow> (0, out_det)))"

text \<open>
  The timed variants. The environment of one call says which requests are granted and
  what the clock measures between \<open>start\<close> and the end of the call; \<open>exec_time\<close> is the
  cell of the optional timing pointer. The result is the return value, the cell of
  \<open>out_det\<close> and the cell of \<open>exec_time\<close> afterwards.
\<close>

record env =
  grant :: resources
  elapsed :: real

definition determinant_single ::
  "env \<Rightarrow> Matrix option \<Rightarrow> real option \<Rightarrow> real option \<Rightarrow> int \<times> real option \<times> real option" where
  "determinant_single e m out_det exec_time =
     (if m = None \<or> out_det = None \<or> rows (the m) \<noteq> cols (the m) then (0, out_det, exec_time)
      else let n = nat (rows (the m)) in
        if \<not> grant e Workspace then (0, out_det, exec_time)
        else (case gauss_loop n 0 (copy_matrix_contiguous (the m)) 1 of
                Singular \<Rightarrow> (1, Some 0, map_option (\<lambda>_. elapsed e) exec_time)
              | Completed A det_sign \<Rightarrow>
                  (1, Some (diag_product A n det_sign), map_option (\<lambda>_. elapsed e) exec_time)
              | Aborted \<Rightarrow> (0, out_det, exec_time)))"

text \<open>
  \<open>determinant_openmp\<close>: the same statements; the loop over the rows below the pivot is
  a parallel loop whose iterations each write one row of their own and read that row
  and row \<open>k\<close>. The threads are modelled by the order in which the rows are taken: any
  reordering \<open>sched\<close> of the iteration space.
\<close>

definition eliminate_below_omp :: "(nat list \<Rightarrow> nat list) \<Rightarrow> real list \<Rightarrow> nat \<Rightarrow> nat \<Rightarrow> real list" where
  "eliminate_below_omp sched A n k =
     (let akk = A ! (k * n + k) in fold (eliminate_row n k akk) (sched [k + 1..<n]) A)"

function omp_loop :: "(nat list \<Rightarrow> nat list) \<Rightarrow> nat \<Rightarrow> nat \<Rightarrow> real list \<Rightarrow> real \<Rightarrow> elim_result" where
  "omp_loop sched n k A det_sign =
     (if k < n then
        (case pivot_and_swap n k A det_sign of
           None \<Rightarrow> Singular
         | Some (A1, sign1) \<Rightarrow> omp_loop sched n (Suc k) (eliminate_below_omp sched A1 n k) sign1)
      else Completed A det_sign)"
  by pat_completeness auto
termination
  by (relation "measure (\<lambda>(sched, n, k, A, s). n - k)") auto

declare omp_loop.simps [simp del]

definition determinant_openmp ::
  "(nat list \<Rightarrow> nat list) \<Rightarrow> env \<Rightarrow> Matrix option \<Rightarrow> real option \<Rightarrow> real option
     \<Rightarrow> int \<times> real option \<times> real option" where
  "determinant_openmp sched e m out_det exec_time =
     (if m = None \<or> out_det = None \<or> rows (the m) \<noteq> cols (the m) then (0, out_det, exec_time)
      else let n = nat (rows (the m)) in
        if \<not> grant e Workspace then (0, out_det, exec_time)
        else (case omp_loop sched n 0 (copy_matrix_contiguous (the m)) 1 of
                Singular \<Rightarrow> (1, Some 0, map_option (\<lambda>_. elapsed e) exec_time)
              | Completed A det_sign \<Rightarrow>
                  (1, Some (diag_product A n det_sign), map_option (\<lambda>_. elapsed e) exec_time)
              | Aborted \<Rightarrow> (0, out_det, exec_time)))"

text \<open>
  \<open>determinant_multiprocess\<close>. In step \<open>k\<close> one child per row below the pivot is forked;
  every child sees the workspace as it is after the swap, computes the segment
  \<open>k..n-1\<close> of its row into a buffer and writes the buffer to its pipe. The parent then
  reads the pipes in order and stores each segment back. A pipe transfer is value
  passing: \<open>pipes ! idx\<close> is the payload of child \<open>idx\<close>, and a child always delivers it.
\<close>

definition child_row :: "real list \<Rightarrow> nat \<Rightarrow> nat \<Rightarrow> real \<Rightarrow> nat \<Rightarrow> real list" where
  "child_row A n k akk i =
     (let seg = n - k;
          buf = replicate seg 0;
          factor = A ! (i * n + k) / akk;
          buf0 = buf[0 := 0]
      in fold (\<lambda>j buf. buf[j - k := A ! (i * n + j) - factor * A ! (k * n + j)])
              [k + 1..<n] buf0)"

fun spawn_rows ::
  "resources \<Rightarrow> real list \<Rightarrow> nat \<Rightarrow> nat \<Rightarrow> real \<Rightarrow> nat list \<Rightarrow> real list list
     \<Rightarrow> real list list option" where
  "spawn_rows res A n k akk [] pipes = Some pipes"
| "spawn_rows res A n k akk (idx # idxs) pipes =
     (let i = k + 1 + idx
      in if \<not> res (RowPipe k idx) then None
         else if \<not> res (RowFork k idx) then None
         else spawn_rows res A n k akk idxs (pipes[idx := child_row A n k akk i]))"

definition write_back :: "nat \<Rightarrow> nat \<Rightarrow> nat \<Rightarrow> real list \<Rightarrow> real list \<Rightarrow> real list" where
  "write_back n k i buf A = fold (\<lambda>j A. A[i * n + j := buf ! (j - k)]) [k..<n] A"

fun collect_rows ::
  "resources \<Rightarrow> nat \<Rightarrow> nat \<Rightarrow> real list list \<Rightarrow> nat list \<Rightarrow> real list \<Rightarrow> real list option" where
  "collect_rows res n k pipes [] A = Some A"
| "collect_rows res n k pipes (idx # idxs) A =
     (let i = k + 1 + idx
      in if \<not> res (ParentBuf k idx) then None
         else collect_rows res n k pipes idxs (write_back n k i (pipes ! idx) A))"

definition eliminate_below_mp :: "resources \<Rightarrow> real list \<Rightarrow> nat \<Rightarrow> nat \<Rightarrow> real list option" where
  "eliminate_below_mp res A n k =
     (let akk = A ! (k * n + k);
          rowsBelow = int n - (int k + 1)
      in if rowsBelow \<le> 0 then Some A
         else if \<not> res (StepArrays k) then None
         else (case spawn_rows res A n k akk [0..<nat rowsBelow] (replicate (nat rowsBelow) []) of
                 None \<Rightarrow> None
               | Some pipes \<Rightarrow> collect_rows res n k pipes [0..<nat rowsBelow] A))"

function mp_loop :: "resources \<Rightarrow> nat \<Rightarrow> nat \<Rightarrow> real list \<Rightarrow> real \<Rightarrow> elim_result" where
  "mp_loop res n k A det_sign =
     (if k < n then
        (case pivot_and_swap n k A det_sign of
           None \<Rightarrow> Singular
         | Some (A1, sign1) \<Rightarrow>
             (case eliminate_below_mp res A1 n k of
                None \<Rightarrow> Aborted
              | Some A2 \<Rightarrow> mp_loop res n (Suc k) A2 sign1))
      else Completed A det_sign)"
  by pat_completeness auto
termination
  by (relation "measure (\<lambda>(res, n, k, A, s). n - k)") auto

declare mp_loop.simps [simp del]

definition determinant_multiprocess ::
  "env \<Rightarrow> Matrix option \<Rightarrow> real option \<Rightarrow> real option \<Rightarrow> int \<times> real option \<times> real option" where
  "determinant_multiprocess e m out_det exec_time =
     (if m = None \<or> out_det = None \<or> rows (the m) \<noteq> cols (the m) then (0, out_det, exec_time)
      else let n = nat (rows (the m)) in
        if \<not> grant e Workspace then (0, out_det, exec_time)
        else (case mp_loop (grant e) n 0 (copy_matrix_contiguous (the m)) 1 of
                Singular \<Rightarrow> (1, Some 0, map_option (\<lambda>_. elapsed e) exec_time)
              | Completed A det_sign \<Rightarrow>
                  (1, Some (diag_product A n det_sign), map_option (\<lambda>_. elapsed e) exec_time)
              | Aborted \<Rightarrow> (0, out_det, exec_time)))"

subsection \<open>Notions used to state the properties of the elimination\<close>


text \<open>
  \<open>gauss_run n A0 k\<close> is the state of the loop of \<open>gauss_loop\<close> at the head of iteration
  \<open>k\<close> when it starts on the workspace \<open>A0\<close> with sign \<open>+1\<close>: the workspace, the sign and
  the number of row swaps executed so far; \<open>None\<close> when the loop has left before.
\<close>

primrec gauss_run :: "nat \<Rightarrow> real list \<Rightarrow> nat \<Rightarrow> (real list \<times> real \<times> nat) option" where
  "gauss_run n A0 0 = Some (A0, 1, 0)"
| "gauss_run n A0 (Suc k) =
     (case gauss_run n A0 k of
        None \<Rightarrow> None
      | Some (A, det_sign, swaps) \<Rightarrow>
          if k < n then
            (case gauss_step n k A det_sign of
               None \<Rightarrow> None
             | Some (A2, sign1) \<Rightarrow>
                 Some (A2, sign1, if fst (pivot_search A n k) \<noteq> k then Suc swaps else swaps))
          else None)"







text \<open>
  The invariant of the pivot search after the rows \<open>k..m-1\<close> have been inspected: the
  candidate is the first row of largest magnitude among them.
\<close>

definition pivot_inv :: "real list \<Rightarrow> nat \<Rightarrow> nat \<Rightarrow> nat \<Rightarrow> nat \<times> real \<Rightarrow> bool" where
  "pivot_inv A n k m = (\<lambda>(p, mx).
           k \<le> p \<and> p < m \<and> mx = \<bar>A ! (p * n + k)\<bar> \<and>
           (\<forall>i. k \<le> i \<and> i < m \<longrightarrow> \<bar>A ! (i * n + k)\<bar> \<le> mx) \<and>
           (\<forall>i. k \<le> i \<and> i < p \<longrightarrow> \<bar>A ! (i * n + k)\<bar> < mx))"


section \<open>Element-wise operations and matrix product\<close>

text \<open>\<open>result->data[i][j] = v\<close>.\<close>

definition set_entry :: "Matrix \<Rightarrow> nat \<Rightarrow> nat \<Rightarrow> real \<Rightarrow> Matrix" where
  "set_entry R i j v = R\<lparr>data := (data R)[i := (data R ! i)[j := v]]\<rparr>"

text \<open>
  The two nested loops over \<open>i < r\<close> and \<open>j < c\<close> that store one computed value per cell,
  and the same stores taken from a list of cells (the iteration space of a collapsed
  parallel loop, in the order the schedule runs it).
\<close>

definition fill_cells :: "(nat \<Rightarrow> nat \<Rightarrow> real) \<Rightarrow> nat \<Rightarrow> nat \<Rightarrow> Matrix \<Rightarrow> Matrix" where
  "fill_cells cell r c result =
     fold (\<lambda>i R. fold (\<lambda>j R. set_entry R i j (cell i j)) [0..<c] R) [0..<r] result"

definition store_cells :: "(nat \<Rightarrow> nat \<Rightarrow> real) \<Rightarrow> (nat \<times> nat) list \<Rightarrow> Matrix \<Rightarrow> Matrix" where
  "store_cells cell ps result = fold (\<lambda>(i, j) R. set_entry R i j (cell i j)) ps result"

text \<open>The value of one cell: sum, difference, and the dot product of row \<open>i\<close> and column \<open>j\<close>.\<close>

definition sum_cell :: "Matrix \<Rightarrow> Matrix \<Rightarrow> nat \<Rightarrow> nat \<Rightarrow> real" where
  "sum_cell m1 m2 i j = data m1 ! i ! j + data m2 ! i ! j"

definition diff_cell :: "Matrix \<Rightarrow> Matrix \<Rightarrow> nat \<Rightarrow> nat \<Rightarrow> real" where
  "diff_cell m1 m2 i j = data m1 ! i ! j - data m2 ! i ! j"

definition dot_cell :: "Matrix \<Rightarrow> Matrix \<Rightarrow> nat \<Rightarrow> nat \<Rightarrow> real" where
  "dot_cell m1 m2 i j =
     fold (\<lambda>k sum. sum + data m1 ! i ! k * data m2 ! k ! j) [0..<nat (cols m1)] 0"

subsection \<open>\<open>matrix_arithmetic.c\<close>\<close>




subsection \<open>The timed variants of \<open>matrix_arithmetic_parallel.c\<close>\<close>

text \<open>
  \<open>exec_time\<close> is the cell of the timing pointer, which these functions dereference
  without a test; the result is the returned matrix and the cell afterwards. The cell
  is written only on the path that returns the matrix.
\<close>

definition add_matrices_single ::
  "env \<Rightarrow> Matrix option \<Rightarrow> Matrix option \<Rightarrow> string option \<Rightarrow> real \<Rightarrow> Matrix option \<times> real" where
  "add_matrices_single e m1 m2 result_name exec_time =
     (if m1 = None \<or> m2 = None \<or> result_name = None then (None, exec_time)
      else if rows (the m1) \<noteq> rows (the m2) \<or> cols (the m1) \<noteq> cols (the m2) then (None, exec_time)
      else (case create_matrix (grant e) result_name (rows (the m1)) (cols (the m1)) of
              None \<Rightarrow> (None, exec_time)
            | Some result \<Rightarrow>
                (Some (fill_cells (sum_cell (the m1) (the m2))
                         (nat (rows (the m1))) (nat (cols (the m1))) result), elapsed e)))"

definition subtract_matrices_single ::
  "env \<Rightarrow> Matrix option \<Rightarrow> Matrix option \<Rightarrow> string option \<Rightarrow> real \<Rightarrow> Matrix option \<times> real" where
  "subtract_matrices_single e m1 m2 result_name exec_time =
     (if m1 = None \<or> m2 = None \<or> result_name = None then (None, exec_time)
      else if rows (the m1) \<noteq> rows (the m2) \<or> cols (the m1) \<noteq> cols (the m2) then (None, exec_time)
      else (case create_matrix (grant e) result_name (rows (the m1)) (cols (the m1)) of
              None \<Rightarrow> (None, exec_time)
            | Some result \<Rightarrow>
                (Some (fill_cells (diff_cell (the m1) (the m2))
                         (nat (rows (the m1))) (nat (cols (the m1))) result), elapsed e)))"

definition multiply_matrices_single ::
  "env \<Rightarrow> Matrix option \<Rightarrow> Matrix option \<Rightarrow> string option \<Rightarrow> real \<Rightarrow> Matrix option \<times> real" where
  "multiply_matrices_single e m1 m2 result_name exec_time =
     (if m1 = None \<or> m2 = None \<or> result_name = None then (None, exec_time)
      else if cols (the m1) \<noteq> rows (the m2) then (None, exec_time)
      else (case create_matrix (grant e) result_name (rows (the m1)) (cols (the m2)) of
              None \<Rightarrow> (None, exec_time)
            | Some result \<Rightarrow>
                (Some (fill_cells (dot_cell (the m1) (the m2))
                         (nat (rows (the m1))) (nat (cols (the m2))) result), elapsed e)))"

text \<open>
  The OpenMP variants: the two loops are collapsed into one parallel loop over the cells
  \<open>(i, j)\<close>, each iteration storing its own cell; the schedule fixes the order.
\<close>

definition add_matrices_openmp ::
  "((nat \<times> nat) list \<Rightarrow> (nat \<times> nat) list) \<Rightarrow> env \<Rightarrow> Matrix option \<Rightarrow> Matrix option
     \<Rightarrow> string option \<Rightarrow> real \<Rightarrow> Matrix option \<times> real" where
  "add_matrices_openmp sched e m1 m2 result_name exec_time =
     (if m1 = None \<or> m2 = None \<or> result_name = None then (None, exec_time)
      else if rows (the m1) \<noteq> rows (the m2) \<or> cols (the m1) \<noteq> cols (the m2) then (None, exec_time)
      else (case create_matrix (grant e) result_name (rows (the m1)) (cols (the m1)) of
              None \<Rightarrow> (None, exec_time)
            | Some result \<Rightarrow>
                (Some (store_cells (sum_cell (the m1) (the m2))
                         (sched (List.product [0..<nat (rows (the m1))] [0..<nat (cols (the m1))]))
                         result), elapsed e)))"

definition subtract_matrices_openmp ::
  "((nat \<times> nat) list \<Rightarrow> (nat \<times> nat) list) \<Rightarrow> env \<Rightarrow> Matrix option \<Rightarrow> Matrix option
     \<Rightarrow> string option \<Rightarrow> real \<Rightarrow> Matrix option \<times> real" where
  "subtract_matrices_openmp sched e m1 m2 result_name exec_time =
     (if m1 = None \<or> m2 = None \<or> result_name = None then (None, exec_time)
      else if rows (the m1) \<noteq> rows (the m2) \<or> cols (the m1) \<noteq> cols (the m2) then (None, exec_time)
      else (case create_matrix (grant e) result_name (rows (the m1)) (cols (the m1)) of
              None \<Rightarrow> (None, exec_time)
            | Some result \<Rightarrow>
                (Some (store_cells (diff_cell (the m1) (the m2))
                         (sched (List.product [0..<nat (rows (the m1))] [0..<nat (cols (the m1))]))
                         result), elapsed e)))"

definition multiply_matrices_openmp ::
  "((nat \<times> nat) list \<Rightarrow> (nat \<times> nat) list) \<Rightarrow> env \<Rightarrow> Matrix option \<Rightarrow> Matrix option
     \<Rightarrow> string option \<Rightarrow> real \<Rightarrow> Matrix option \<times> real" where
  "multiply_matrices_openmp sched e m1 m2 result_name exec_time =
     (if m1 = None \<or> m2 = None \<or> result_name = None then (None, exec_time)
      else if cols (the m1) \<noteq> rows (the m2) then (None, exec_time)
      else (case create_matrix (grant e) result_name (rows (the m1)) (cols (the m2)) of
              None \<Rightarrow> (None, exec_time)
            | Some result \<Rightarrow>
                (Some (store_cells (dot_cell (the m1) (the m2))
                         (sched (List.product [0..<nat (rows (the m1))] [0..<nat (cols (the m2))]))
                         result), elapsed e)))"

text \<open>
  The multiprocess variants fork one child per cell. The first pair of loops creates,
  for the cell with running number \<open>elem_idx\<close>, a pipe and a child that writes the value
  of the cell to it; the second pair reads the pipes in the same order and stores the
  values. \<open>pipes ! elem_idx\<close> is the value child \<open>elem_idx\<close> has written.
\<close>

fun spawn_cells ::
  "resources \<Rightarrow> (nat \<Rightarrow> nat \<Rightarrow> real) \<Rightarrow> (nat \<times> nat) list \<Rightarrow> nat \<Rightarrow> real list \<Rightarrow> real list option" where
  "spawn_cells res cell [] elem_idx pipes = Some pipes"
| "spawn_cells res cell ((i, j) # rest) elem_idx pipes =
     (if \<not> res (ElemPipe elem_idx) then None
      else if \<not> res (ElemFork elem_idx) then None
      else spawn_cells res cell rest (elem_idx + 1) (pipes[elem_idx := cell i j]))"

fun collect_cells :: "real list \<Rightarrow> (nat \<times> nat) list \<Rightarrow> nat \<Rightarrow> Matrix \<Rightarrow> Matrix" where
  "collect_cells pipes [] elem_idx result = result"
| "collect_cells pipes ((i, j) # rest) elem_idx result =
     collect_cells pipes rest (elem_idx + 1) (set_entry result i j (pipes ! elem_idx))"

definition forked_cells ::
  "resources \<Rightarrow> (nat \<Rightarrow> nat \<Rightarrow> real) \<Rightarrow> nat \<Rightarrow> nat \<Rightarrow> Matrix \<Rightarrow> Matrix option" where
  "forked_cells res cell r c result =
     (let total_elements = r * c
      in if \<not> res Pids then None
         else (case spawn_cells res cell (List.product [0..<r] [0..<c]) 0
                      (replicate total_elements 0) of
                 None \<Rightarrow> None
               | Some pipes \<Rightarrow> Some (collect_cells pipes (List.product [0..<r] [0..<c]) 0 result)))"

definition add_matrices_multiprocess ::
  "env \<Rightarrow> Matrix option \<Rightarrow> Matrix option \<Rightarrow> string option \<Rightarrow> real \<Rightarrow> Matrix option \<times> real" where
  "add_matrices_multiprocess e m1 m2 result_name exec_time =
     (if m1 = None \<or> m2 = None \<or> result_name = None then (None, exec_time)
      else if rows (the m1) \<noteq> rows (the m2) \<or> cols (the m1) \<noteq> cols (the m2) then (None, exec_time)
      else (case create_matrix (grant e) result_name (rows (the m1)) (cols (the m1)) of
              None \<Rightarrow> (None, exec_time)
            | Some result \<Rightarrow>
                (case forked_cells (grant e) (sum_cell (the m1) (the m2))
                        (nat (rows (the m1))) (nat (cols (the m1))) result of
                   None \<Rightarrow> (None, exec_time)
                 | Some filled \<Rightarrow> (Some filled, elapsed e))))"

definition subtract_matrices_multiprocess ::
  "env \<Rightarrow> Matrix option \<Rightarrow> Matrix option \<Rightarrow> string option \<Rightarrow> real \<Rightarrow> Matrix option \<times> real" where
  "subtract_matrices_multiprocess e m1 m2 result_name exec_time =
     (if m1 = None \<or> m2 = None \<or> result_name = None then (None, exec_time)
      else if rows (the m1) \<noteq> rows (the m2) \<or> cols (the m1) \<noteq> cols (the m2) then (None, exec_time)
      else (case create_matrix (grant e) result_name (rows (the m1)) (cols (the m1)) of
              None \<Rightarrow> (None, exec_time)
            | Some result \<Rightarrow>
                (case forked_cells (grant e) (diff_cell (the m1) (the m2))
                        (nat (rows (the m1))) (nat (cols (the m1))) result of
                   None \<Rightarrow> (None, exec_time)
                 | Some filled \<Rightarrow> (Some filled, elapsed e))))"

definition multiply_matrices_multiprocess ::
  "env \<Rightarrow> Matrix option \<Rightarrow> Matrix option \<Rightarrow> string option \<Rightarrow> real \<Rightarrow> Matrix option \<times> real" where
  "multiply_matrices_multiprocess e m1 m2 result_name exec_time =
     (if m1 = None \<or> m2 = None \<or> result_name = None then (None, exec_time)
      else if cols (the m1) \<noteq> rows (the m2) then (None, exec_time)
      else (case create_matrix (grant e) result_name (rows (the m1)) (cols (the m2)) of
              None \<Rightarrow> (None, exec_time)
            | Some result \<Rightarrow>
                (case forked_cells (grant e) (dot_cell (the m1) (the m2))
                        (nat (rows (the m1))) (nat (cols (the m2))) result of
                   None \<Rightarrow> (None, exec_time)
                 | Some filled \<Rightarrow> (Some filled, elapsed e))))"

text \<open>A matrix value whose data has \<open>r\<close> rows of \<open>c\<close> entries.\<close>

definition shaped :: "nat \<Rightarrow> nat \<Rightarrow> Matrix \<Rightarrow> bool" where
  "shaped r c R \<longleftrightarrow> length (data R) = r \<and> (\<forall>i<r. length (data R ! i) = c)"

text \<open>
  \<open>cells_are f r c result\<close>: the operation returned a matrix of \<open>r\<close> rows and \<open>c\<close> columns
  whose entry \<open>[i][j]\<close> is \<open>f i j\<close>.
\<close>

definition cells_are :: "(nat \<Rightarrow> nat \<Rightarrow> real) \<Rightarrow> int \<Rightarrow> int \<Rightarrow> Matrix option \<Rightarrow> bool" where
  "cells_are f r c result \<longleftrightarrow>
     (case result of
        None \<Rightarrow> False
      | Some R \<Rightarrow> rows R = r \<and> cols R = c \<and> shaped (nat r) (nat c) R \<and>
                 (\<forall>i j. i < nat r \<and> j < nat c \<longrightarrow> data R ! i ! j = f i j))"

subsection \<open>\<open>run_operation_comparison\<close>\<close>

record PerformanceMetrics =
  single_thread_time :: real
  openmp_time :: real
  multiprocess_time :: real

text \<open>
  The three strategies run one after the other, each in its own environment. A strategy
  writes its timing cell only when it returns a matrix; otherwise the cell keeps what the
  caller's struct held. The selection compares the three cells. The result is the
  returned matrix and the metrics struct afterwards.
\<close>

definition run_operation_comparison ::
  "((nat \<times> nat) list \<Rightarrow> (nat \<times> nat) list) \<Rightarrow> env \<Rightarrow> env \<Rightarrow> env \<Rightarrow>
   Matrix option \<Rightarrow> Matrix option \<Rightarrow> string option \<Rightarrow> string option \<Rightarrow>
   PerformanceMetrics option \<Rightarrow> Matrix option \<times> PerformanceMetrics option" where
  "run_operation_comparison sched e1 e2 e3 m1 m2 result_name operation metrics =
     (if m1 = None \<or> m2 = None \<or> result_name = None \<or> operation = None \<or> metrics = None
      then (None, metrics)
      else
        let mt0 = the metrics;
            temp1 = Some (take 127 (the result_name @ ''_single''));
            (result1, t1) =
              (if the operation = ''Addition''
                 then add_matrices_single e1 m1 m2 temp1 (single_thread_time mt0)
               else if the operation = ''Subtraction''
                 then subtract_matrices_single e1 m1 m2 temp1 (single_thread_time mt0)
               else if the operation = ''Multiplication''
                 then multiply_matrices_single e1 m1 m2 temp1 (single_thread_time mt0)
               else (None, single_thread_time mt0));
            mt1 = mt0\<lparr>single_thread_time := t1\<rparr>;
            temp2 = Some (take 127 (the result_name @ ''_openmp''));
            (result2, t2) =
              (if the operation = ''Addition''
                 then add_matrices_openmp sched e2 m1 m2 temp2 (openmp_time mt1)
               else if the operation = ''Subtraction''
                 then subtract_matrices_openmp sched e2 m1 m2 temp2 (openmp_time mt1)
               else if the operation = ''Multiplication''
                 then multiply_matrices_openmp sched e2 m1 m2 temp2 (openmp_time mt1)
               else (None, openmp_time mt1));
            mt2 = mt1\<lparr>openmp_time := t2\<rparr>;
            temp3 = Some (take 127 (the result_name @ ''_multiproc''));
            (result3, t3) =
              (if the operation = ''Addition''
                 then add_matrices_multiprocess e3 m1 m2 temp3 (multiprocess_time mt2)
               else if the operation = ''Subtraction''
                 then subtract_matrices_multiprocess e3 m1 m2 temp3 (multiprocess_time mt2)
               else if the operation = ''Multiplication''
                 then multiply_matrices_multiprocess e3 m1 m2 temp3 (multiprocess_time mt2)
               else (None, multiprocess_time mt2));
            mt3 = mt2\<lparr>multiprocess_time := t3\<rparr>;
            fastest_time = single_thread_time mt3;
            fastest_result = result1;
            (fastest_time, fastest_result) =
              (if openmp_time mt3 < fastest_time then (openmp_time mt3, result2)
               else (fastest_time, fastest_result));
            (fastest_time, fastest_result) =
              (if multiprocess_time mt3 < fastest_time then (multiprocess_time mt3, result3)
               else (fastest_time, fastest_result));
            renamed =
              (case fastest_result of
                 None \<Rightarrow> None
               | Some r \<Rightarrow> Some (r\<lparr>name := take (MAX_NAME_LENGTH - 1) (the result_name)\<rparr>))
        in (renamed, Some mt3))"

section \<open>Eigenvalues by QR iteration\<close>

record EigenResult =
  eigenvalues :: "real list"
  eigenvectors :: "Matrix option"
  er_n :: int
  iterations :: int

text \<open>
  Writing one computed value into every entry \<open>(i, j)\<close> of a flat \<open>n \<times> n\<close> array, row
  by row: the shape of \<open>copy_matrix_flat\<close> and of \<open>matmul_single\<close>.
\<close>

definition fill_flat :: "(nat \<Rightarrow> nat \<Rightarrow> real) \<Rightarrow> nat \<Rightarrow> real list \<Rightarrow> real list" where
  "fill_flat f n A = fold (\<lambda>i A. fold (\<lambda>j A. A[i * n + j := f i j]) [0..<n] A) [0..<n] A"

text \<open>
  A freshly allocated buffer of \<open>n * n\<close> values. Its content before the first write is
  irrelevant to the code, which writes every entry before reading it; the model takes
  zeros.
\<close>

definition fresh :: "nat \<Rightarrow> real list" where
  "fresh n = replicate (n * n) 0"

definition copy_matrix_flat :: "Matrix \<Rightarrow> real list" where
  "copy_matrix_flat m =
     (let n = nat (rows m) in fill_flat (\<lambda>i j. data m ! i ! j) n (fresh n))"

definition copy_flat_to_matrix :: "real list \<Rightarrow> Matrix \<Rightarrow> Matrix" where
  "copy_flat_to_matrix A m =
     (let n = nat (rows m) in fill_cells (\<lambda>i j. A ! (i * n + j)) n n m)"

text \<open>
  One column \<open>j\<close> of the Gram-Schmidt decomposition: copy the column of \<open>A\<close> into \<open>Q\<close>,
  orthogonalise it against the columns \<open>k < j\<close>, compute its norm; \<open>None\<close> when the norm is
  below \<open>1e-14\<close>, else store the norm and normalise.
\<close>

definition orthogonalize :: "nat \<Rightarrow> nat \<Rightarrow> real list \<Rightarrow> nat \<Rightarrow> real list \<times> real list \<Rightarrow> real list \<times> real list" where
  "orthogonalize n j A k = (\<lambda>(Q, R).
     let dot = fold (\<lambda>i dot. dot + Q ! (i * n + k) * A ! (i * n + j)) [0..<n] 0;
         R1 = R[k * n + j := dot];
         Q1 = fold (\<lambda>i Q. Q[i * n + j := Q ! (i * n + j) - dot * Q ! (i * n + k)]) [0..<n] Q
     in (Q1, R1))"

definition column_norm :: "nat \<Rightarrow> nat \<Rightarrow> real list \<Rightarrow> real" where
  "column_norm n j Q = sqrt (fold (\<lambda>i norm. norm + Q ! (i * n + j) * Q ! (i * n + j)) [0..<n] 0)"

definition qr_column ::
  "nat \<Rightarrow> nat \<Rightarrow> real list \<Rightarrow> real list \<Rightarrow> real list \<Rightarrow> (real list \<times> real list) option" where
  "qr_column n j A Q R =
     (let Q1 = fold (\<lambda>i Q. Q[i * n + j := A ! (i * n + j)]) [0..<n] Q;
          (Q2, R2) = fold (orthogonalize n j A) [0..<j] (Q1, R);
          norm = column_norm n j Q2
      in if norm < 1 / 10 ^ 14 then None
         else Some (fold (\<lambda>i Q. Q[i * n + j := Q ! (i * n + j) / norm]) [0..<n] Q2,
                    R2[j * n + j := norm]))"

function qr_columns ::
  "nat \<Rightarrow> nat \<Rightarrow> real list \<Rightarrow> real list \<Rightarrow> real list \<Rightarrow> (real list \<times> real list) option" where
  "qr_columns n j A Q R =
     (if j < n then
        (case qr_column n j A Q R of
           None \<Rightarrow> None
         | Some (Q3, R3) \<Rightarrow> qr_columns n (Suc j) A Q3 R3)
      else Some (Q, R))"
  by pat_completeness auto
termination
  by (relation "measure (\<lambda>(n, j, A, Q, R). n - j)") auto

declare qr_columns.simps [simp del]

definition qr_decompose_single :: "real list \<Rightarrow> nat \<Rightarrow> (real list \<times> real list) option" where
  "qr_decompose_single A n = qr_columns n 0 A (replicate (n * n) 0) (replicate (n * n) 0)"

definition matmul_single :: "real list \<Rightarrow> real list \<Rightarrow> nat \<Rightarrow> real list" where
  "matmul_single A B n =
     fill_flat (\<lambda>i j. fold (\<lambda>k sum. sum + A ! (i * n + k) * B ! (k * n + j)) [0..<n] 0) n (fresh n)"

definition is_converged :: "real list \<Rightarrow> nat \<Rightarrow> real \<Rightarrow> bool" where
  "is_converged A n tol =
     list_all (\<lambda>i. list_all (\<lambda>j. \<not> (i \<noteq> j \<and> \<bar>A ! (i * n + j)\<bar> > tol)) [0..<n]) [0..<n]"

definition extract_eigenvalues :: "real list \<Rightarrow> nat \<Rightarrow> real list" where
  "extract_eigenvalues A n = map (\<lambda>i. A ! (i * n + i)) [0..<n]"

text \<open>
  The iteration loop of \<open>eigen_qr_single\<close> from the state \<open>(iter, A, V)\<close>: \<open>None\<close> when a
  decomposition fails, else the counter, the iterate and the accumulated transform at
  the exit (by the convergence test or by the bound).
\<close>

function qr_iterate ::
  "nat \<Rightarrow> int \<Rightarrow> real \<Rightarrow> int \<Rightarrow> real list \<Rightarrow> real list \<Rightarrow> (int \<times> real list \<times> real list) option" where
  "qr_iterate n max_iter tol iter A V =
     (if iter < max_iter then
        if is_converged A n tol then Some (iter, A, V)
        else (case qr_decompose_single A n of
                None \<Rightarrow> None
              | Some (Q, R) \<Rightarrow>
                  qr_iterate n max_iter tol (iter + 1) (matmul_single R Q n) (matmul_single V Q n))
      else Some (iter, A, V))"
  by pat_completeness auto
termination
  by (relation "measure (\<lambda>(n, max_iter, tol, iter, A, V). nat (max_iter - iter))") auto

declare qr_iterate.simps [simp del]

definition identity_flat :: "nat \<Rightarrow> real list" where
  "identity_flat n = fold (\<lambda>i V. V[i * n + i := 1]) [0..<n] (replicate (n * n) 0)"

text \<open>
  \<open>eigen_qr_single m max_iter tol exec_time\<close>: the returned result (\<open>None\<close> for \<open>NULL\<close>)
  and the cell of the optional timing pointer afterwards. The allocations of the result
  struct and of its eigenvalue array are not tested by the source and are taken to
  succeed; the eigenvector matrix may be missing.
\<close>

definition eigen_qr_single ::
  "env \<Rightarrow> Matrix option \<Rightarrow> int \<Rightarrow> real \<Rightarrow> real option \<Rightarrow> EigenResult option \<times> real option" where
  "eigen_qr_single e m max_iter tol exec_time =
     (if m = None \<or> rows (the m) \<noteq> cols (the m) then (None, exec_time)
      else let n = nat (rows (the m)) in
        if \<not> grant e Workspace then (None, exec_time)
        else if \<not> grant e QRBuffers then (None, exec_time)
        else (case qr_iterate n max_iter tol 0 (copy_matrix_flat (the m)) (identity_flat n) of
                None \<Rightarrow> (None, exec_time)
              | Some (iter, A, V) \<Rightarrow>
                  (Some \<lparr> eigenvalues = extract_eigenvalues A n,
                          eigenvectors =
                            (case create_matrix (grant e) (Some ''Eigenvectors'')
                                    (rows (the m)) (rows (the m)) of
                               None \<Rightarrow> None
                             | Some ev \<Rightarrow> Some (copy_flat_to_matrix V ev)),
                          er_n = rows (the m),
                          iterations = iter \<rparr>,
                   map_option (\<lambda>_. elapsed e) exec_time)))"

text \<open>
  \<open>qr_rounds n tol A0 V0 j\<close>: the iterate and the transform after \<open>j\<close> rounds of the loop
  have been executed from \<open>(A0, V0)\<close>, each from a state that was not converged and each
  with a successful decomposition; \<open>None\<close> when the loop cannot execute \<open>j\<close> rounds.
\<close>

primrec qr_rounds :: "nat \<Rightarrow> real \<Rightarrow> real list \<Rightarrow> real list \<Rightarrow> nat \<Rightarrow> (real list \<times> real list) option" where
  "qr_rounds n tol A0 V0 0 = Some (A0, V0)"
| "qr_rounds n tol A0 V0 (Suc j) =
     (case qr_rounds n tol A0 V0 j of
        None \<Rightarrow> None
      | Some (A, V) \<Rightarrow>
          if is_converged A n tol then None
          else (case qr_decompose_single A n of
                  None \<Rightarrow> None
                | Some (Q, R) \<Rightarrow> Some (matmul_single R Q n, matmul_single V Q n)))"


section \<open>Concrete inputs\<close>

text \<open>Matrices and environments at which the properties below are evaluated.\<close>

definition all_granted :: env where
  "all_granted = \<lparr>grant = (\<lambda>_. True), elapsed = 1\<rparr>"

definition M22 :: Matrix where
  "M22 = \<lparr>name = ''A'', rows = 2, cols = 2, data = [[1, 2], [3, 4]]\<rparr>"


definition M23 :: Matrix where
  "M23 = \<lparr>name = ''R'', rows = 2, cols = 3, data = [[1, 0, 0], [0, 1, 0]]\<rparr>"



text \<open>Environments that refuse one request: the workspace; the first fork of a row child.\<close>

definition no_workspace :: env where
  "no_workspace = \<lparr>grant = (\<lambda>s. s \<noteq> Workspace), elapsed = 1\<rparr>"

definition no_row_fork :: env where
  "no_row_fork = \<lparr>grant = (\<lambda>s. s \<noteq> RowFork 0 0), elapsed = 1\<rparr>"

definition A12 :: Matrix where
  "A12 = \<lparr>name = ''P'', rows = 1, cols = 2, data = [[1, 2]]\<rparr>"

definition B12 :: Matrix where
  "B12 = \<lparr>name = ''Q'', rows = 1, cols = 2, data = [[10, 20]]\<rparr>"


text \<open>
  Environments of a harness run: the single-threaded call measures 3 seconds, the
  OpenMP call 2 seconds, and the first fork of the multiprocess call is refused. The
  caller's metrics struct is not initialised by the caller; here it holds zeros.
\<close>

definition env_single :: env where
  "env_single = \<lparr>grant = (\<lambda>_. True), elapsed = 3\<rparr>"

definition env_openmp :: env where
  "env_openmp = \<lparr>grant = (\<lambda>_. True), elapsed = 2\<rparr>"

definition no_elem_fork :: env where
  "no_elem_fork = \<lparr>grant = (\<lambda>s. s \<noteq> ElemFork 0), elapsed = 1\<rparr>"

definition metrics0 :: PerformanceMetrics where
  "metrics0 = \<lparr>single_thread_time = 0, openmp_time = 0, multiprocess_time = 0\<rparr>"

text \<open>
  Inputs of the eigen solver: a diagonal matrix, a matrix whose first column is zero,
  the permutation matrix that the iteration maps to itself, and an environment that
  refuses only the eigenvector matrix.
\<close>

definition D2 :: Matrix where
  "D2 = \<lparr>name = ''D'', rows = 2, cols = 2, data = [[2, 0], [0, 3]]\<rparr>"




section \<open>Lemmas about the loops\<close>

lemma idx_inj: "j < n \<Longrightarrow> j' < n \<Longrightarrow> (i * n + j = i' * n + j') = (i = i' \<and> j = (j'::nat))"
proof
  assume a: "j < n" "j' < n" and e: "i * n + j = i' * n + j'"
  have "(i * n + j) div n = i" "(i' * n + j') div n = i'" using a by simp_all
  with e have "i = i'" by metis
  with e show "i = i' \<and> j = j'" by simp
qed simp

lemma idx_lt: "i < n \<Longrightarrow> j < n \<Longrightarrow> i * n + j < n * (n::nat)"
proof -
  assume a: "i < n" "j < n"
  have "i * n + j < i * n + n" using a by simp
  also have "\<dots> = Suc i * n" by simp
  also have "\<dots> \<le> n * n" using a by (metis Suc_leI mult.commute mult_le_mono2)
  finally show ?thesis .
qed

lemma pivot_inv_step:
  assumes "pivot_inv A n k m s" "k < m"
  shows "pivot_inv A n k (Suc m) (pivot_step A n k m s)"
proof -
  obtain p mx where s: "s = (p, mx)" by (cases s)
  show ?thesis using assms unfolding s pivot_inv_def pivot_step_def Let_def
    by (auto simp: less_Suc_eq)
qed

lemma pivot_fold_props:
  assumes "k < m"
  shows "pivot_inv A n k m (fold (pivot_step A n k) [Suc k..<m] (k, \<bar>A ! (k * n + k)\<bar>))"
  using assms
proof (induction m)
  case 0 then show ?case by simp
next
  case (Suc m)
  show ?case
  proof (cases "k < m")
    case False
    with Suc.prems have "m = k" by simp
    then show ?thesis by (auto simp: pivot_inv_def le_less_Suc_eq)
  next
    case True
    then have up: "[Suc k..<Suc m] = [Suc k..<m] @ [m]" by simp
    show ?thesis unfolding up using pivot_inv_step[OF Suc.IH[OF True] True] by simp
  qed
qed

lemma pivot_search_inv: "k < n \<Longrightarrow> pivot_inv A n k n (pivot_search A n k)"
  unfolding pivot_search_def using pivot_fold_props[of k n A n] by simp

lemma swap_fold:
  assumes len: "length A = n * n" and kn: "k < n" and pn: "p < n" and pk: "p \<noteq> k"
  shows "m \<le> n \<Longrightarrow>
     (let B = fold (\<lambda>j A. let tmp = A ! (k * n + j)
                 in (A[k * n + j := A ! (p * n + j)])[p * n + j := tmp]) [k..<m] A
      in length B = n * n \<and>
         (\<forall>i j. i < n \<and> j < n \<longrightarrow> B ! (i * n + j) =
            (if k \<le> j \<and> j < m \<and> i = k then A ! (p * n + j)
             else if k \<le> j \<and> j < m \<and> i = p then A ! (k * n + j)
             else A ! (i * n + j))))"
proof (induction m)
  case 0 then show ?case using len by simp
next
  case (Suc m)
  show ?case
  proof (cases "k \<le> m")
    case False
    then show ?thesis using len by auto
  next
    case True
    then have up: "[k..<Suc m] = [k..<m] @ [m]" by simp
    have mn: "m < n" using Suc.prems by simp
    from Suc have IH: "(let B = fold (\<lambda>j A. let tmp = A ! (k * n + j)
                 in (A[k * n + j := A ! (p * n + j)])[p * n + j := tmp]) [k..<m] A
      in length B = n * n \<and>
         (\<forall>i j. i < n \<and> j < n \<longrightarrow> B ! (i * n + j) =
            (if k \<le> j \<and> j < m \<and> i = k then A ! (p * n + j)
             else if k \<le> j \<and> j < m \<and> i = p then A ! (k * n + j)
             else A ! (i * n + j))))" by simp
    show ?thesis unfolding up fold_append using IH mn kn pn pk True
      by (auto simp: Let_def idx_inj idx_lt nth_list_update less_Suc_eq)
  qed
qed

lemma swap_rows_length:
  "length A = n * n \<Longrightarrow> k < n \<Longrightarrow> p < n \<Longrightarrow> p \<noteq> k \<Longrightarrow> length (swap_rows A n k p) = n * n"
  using swap_fold[of A n k p n] unfolding swap_rows_def by (simp add: Let_def)

lemma swap_rows_nth:
  "length A = n * n \<Longrightarrow> k < n \<Longrightarrow> p < n \<Longrightarrow> p \<noteq> k \<Longrightarrow> i < n \<Longrightarrow> j < n \<Longrightarrow>
   swap_rows A n k p ! (i * n + j) =
     (if k \<le> j \<and> i = k then A ! (p * n + j)
      else if k \<le> j \<and> i = p then A ! (k * n + j)
      else A ! (i * n + j))"
  using swap_fold[of A n k p n] unfolding swap_rows_def by (simp add: Let_def)

lemma elim_row_fold:
  assumes len: "length A = n * n" and kn: "k < n" and iN: "i < n" and ik: "i \<noteq> k"
  shows "m \<le> n \<Longrightarrow>
     (let B = fold (\<lambda>j A. A[i * n + j := A ! (i * n + j) - f * A ! (k * n + j)]) [Suc k..<m] A
      in length B = n * n \<and>
         (\<forall>r c. r < n \<and> c < n \<longrightarrow> B ! (r * n + c) =
            (if r = i \<and> k < c \<and> c < m then A ! (i * n + c) - f * A ! (k * n + c)
             else A ! (r * n + c))))"
proof (induction m)
  case 0 then show ?case using len by simp
next
  case (Suc m)
  show ?case
  proof (cases "k < m")
    case False
    then show ?thesis using len by auto
  next
    case True
    then have up: "[Suc k..<Suc m] = [Suc k..<m] @ [m]" by simp
    have mn: "m < n" using Suc.prems by simp
    from Suc have IH: "(let B = fold (\<lambda>j A. A[i * n + j := A ! (i * n + j) - f * A ! (k * n + j)]) [Suc k..<m] A
      in length B = n * n \<and>
         (\<forall>r c. r < n \<and> c < n \<longrightarrow> B ! (r * n + c) =
            (if r = i \<and> k < c \<and> c < m then A ! (i * n + c) - f * A ! (k * n + c)
             else A ! (r * n + c))))" by simp
    show ?thesis unfolding up fold_append using IH mn kn iN ik True
      by (auto simp: Let_def idx_inj idx_lt nth_list_update less_Suc_eq)
  qed
qed

lemma eliminate_row_length:
  "length A = n * n \<Longrightarrow> k < n \<Longrightarrow> i < n \<Longrightarrow> i \<noteq> k \<Longrightarrow> length (eliminate_row n k akk i A) = n * n"
  using elim_row_fold[of "A[i * n + k := 0]" n k i n "A ! (i * n + k) / akk"]
  unfolding eliminate_row_def by (simp add: Let_def)

lemma eliminate_row_nth:
  "length A = n * n \<Longrightarrow> k < n \<Longrightarrow> i < n \<Longrightarrow> i \<noteq> k \<Longrightarrow> r < n \<Longrightarrow> c < n \<Longrightarrow>
   eliminate_row n k akk i A ! (r * n + c) =
     (if r = i \<and> c = k then 0
      else if r = i \<and> k < c then A ! (i * n + c) - A ! (i * n + k) / akk * A ! (k * n + c)
      else A ! (r * n + c))"
  using elim_row_fold[of "A[i * n + k := 0]" n k i n "A ! (i * n + k) / akk"]
  unfolding eliminate_row_def by (auto simp add: Let_def idx_inj idx_lt nth_list_update)

lemma elim_rows_fold:
  assumes len: "length A = n * n" and kn: "k < n"
  shows "distinct rs \<Longrightarrow> (\<forall>r \<in> set rs. k < r \<and> r < n) \<Longrightarrow>
     length (fold (eliminate_row n k akk) rs A) = n * n \<and>
     (\<forall>r c. r < n \<and> c < n \<longrightarrow> fold (eliminate_row n k akk) rs A ! (r * n + c) =
        (if r \<in> set rs \<and> c = k then 0
         else if r \<in> set rs \<and> k < c then A ! (r * n + c) - A ! (r * n + k) / akk * A ! (k * n + c)
         else A ! (r * n + c)))"
proof (induction rs rule: rev_induct)
  case Nil then show ?case using len by simp
next
  case (snoc x xs)
  let ?B = "fold (eliminate_row n k akk) xs A"
  from snoc have IH: "length ?B = n * n"
     "\<And>r c. r < n \<Longrightarrow> c < n \<Longrightarrow> ?B ! (r * n + c) =
        (if r \<in> set xs \<and> c = k then 0
         else if r \<in> set xs \<and> k < c then A ! (r * n + c) - A ! (r * n + k) / akk * A ! (k * n + c)
         else A ! (r * n + c))" by auto
  from snoc.prems have x: "x \<notin> set xs" "k < x" "x < n" by auto
  then have xk: "x \<noteq> k" by simp
  from snoc.prems have kx: "k \<notin> set xs" by auto
  have L: "length (eliminate_row n k akk x ?B) = n * n"
    using eliminate_row_length[OF IH(1) kn x(3) xk] .
  have N: "\<And>r c. r < n \<Longrightarrow> c < n \<Longrightarrow> eliminate_row n k akk x ?B ! (r * n + c) =
     (if r = x \<and> c = k then 0
      else if r = x \<and> k < c then ?B ! (x * n + c) - ?B ! (x * n + k) / akk * ?B ! (k * n + c)
      else ?B ! (r * n + c))"
    using eliminate_row_nth[OF IH(1) kn x(3) xk] by simp
  show ?case
  proof (intro conjI allI impI)
    show "length (fold (eliminate_row n k akk) (xs @ [x]) A) = n * n" using L by simp
  next
    fix r c assume rc: "r < n \<and> c < n"
    then have r: "r < n" and c: "c < n" by auto
    show "fold (eliminate_row n k akk) (xs @ [x]) A ! (r * n + c) =
        (if r \<in> set (xs @ [x]) \<and> c = k then 0
         else if r \<in> set (xs @ [x]) \<and> k < c then A ! (r * n + c) - A ! (r * n + k) / akk * A ! (k * n + c)
         else A ! (r * n + c))"
      using N[OF r c] IH(2)[OF r c] IH(2)[OF x(3) c] IH(2)[OF x(3) kn] IH(2)[OF kn c] x kn kx
      by (auto split: if_splits)
  qed
qed

lemma eliminate_below_length:
  "length A = n * n \<Longrightarrow> k < n \<Longrightarrow> length (eliminate_below A n k) = n * n"
  unfolding eliminate_below_def Let_def
  using elim_rows_fold[of A n k "[k + 1..<n]" "A ! (k * n + k)"] by simp




lemma pivot_search_bounds:
  assumes "k < n" "pivot_search A n k = (p, mx)"
  shows "k \<le> p" "p < n" "mx = \<bar>A ! (p * n + k)\<bar>"
    "\<And>i. k \<le> i \<Longrightarrow> i < n \<Longrightarrow> \<bar>A ! (i * n + k)\<bar> \<le> mx"
    "\<And>i. k \<le> i \<Longrightarrow> i < p \<Longrightarrow> \<bar>A ! (i * n + k)\<bar> < mx"
  using pivot_search_inv[OF assms(1), of A] unfolding assms(2) pivot_inv_def by auto

lemma pivot_and_swap_props:
  assumes kn: "k < n" and len: "length A = n * n"
    and ps: "pivot_and_swap n k A s = Some (A1, s1)"
  shows "length A1 = n * n" "PIVOT_EPS \<le> \<bar>A1 ! (k * n + k)\<bar>"
    "s1 = (if fst (pivot_search A n k) \<noteq> k then - s else s)"
proof -
  obtain p mx where pm: "pivot_search A n k = (p, mx)" by fastforce
  note B = pivot_search_bounds[OF kn pm]
  show "length A1 = n * n" using ps len B(1,2) kn unfolding pivot_and_swap_def pm
    by (auto simp: Let_def swap_rows_length split: if_splits)
  show "PIVOT_EPS \<le> \<bar>A1 ! (k * n + k)\<bar>" using ps len B(1,2) kn unfolding pivot_and_swap_def pm
    by (auto simp: Let_def swap_rows_nth split: if_splits)
  show "s1 = (if fst (pivot_search A n k) \<noteq> k then - s else s)"
    using ps unfolding pivot_and_swap_def pm by (auto simp: Let_def split: if_splits)
qed

lemma gauss_step_length:
  assumes "k < n" "length A = n * n" "gauss_step n k A s = Some (A2, s2)"
  shows "length A2 = n * n"
proof -
  from assms(3) obtain A1 where ps: "pivot_and_swap n k A s = Some (A1, s2)"
    and A2: "A2 = eliminate_below A1 n k"
    unfolding gauss_step_def by (auto split: option.splits)
  show ?thesis unfolding A2
    using eliminate_below_length[OF pivot_and_swap_props(1)[OF assms(1,2) ps] assms(1)] .
qed


lemma child_fold:
  "m \<le> n \<Longrightarrow> k < n \<Longrightarrow> length buf0 = n - k \<Longrightarrow>
     length (fold (\<lambda>j buf. buf[j - k := A ! (i * n + j) - f * A ! (k * n + j)]) [Suc k..<m] buf0) = n - k \<and>
     (\<forall>c. k \<le> c \<and> c < n \<longrightarrow>
        fold (\<lambda>j buf. buf[j - k := A ! (i * n + j) - f * A ! (k * n + j)]) [Suc k..<m] buf0 ! (c - k) =
          (if k < c \<and> c < m then A ! (i * n + c) - f * A ! (k * n + c) else buf0 ! (c - k)))"
proof (induction m)
  case 0 then show ?case by simp
next
  case (Suc m)
  let ?F = "\<lambda>m. fold (\<lambda>j buf. buf[j - k := A ! (i * n + j) - f * A ! (k * n + j)]) [Suc k..<m] buf0"
  show ?case
  proof (cases "k < m")
    case False
    then have e: "[Suc k..<Suc m] = []" by simp
    have "\<And>c. \<not> (k < c \<and> c < Suc m)" using False by auto
    then show ?thesis unfolding e using Suc.prems by auto
  next
    case True
    then have up: "[Suc k..<Suc m] = [Suc k..<m] @ [m]" by simp
    have mn: "m < n" using Suc.prems by simp
    from Suc have IH1: "length (?F m) = n - k"
      and IH2: "\<And>c. k \<le> c \<Longrightarrow> c < n \<Longrightarrow>
        ?F m ! (c - k) =
          (if k < c \<and> c < m then A ! (i * n + c) - f * A ! (k * n + c) else buf0 ! (c - k))" by auto
    have step: "?F (Suc m) = (?F m)[m - k := A ! (i * n + m) - f * A ! (k * n + m)]"
      unfolding up by simp
    show ?thesis
    proof (intro conjI allI impI)
      show "length (?F (Suc m)) = n - k" unfolding step using IH1 by simp
    next
      fix c assume "k \<le> c \<and> c < n"
      then have kc: "k \<le> c" and cn: "c < n" by auto
      have lt: "m - k < length (?F m)" unfolding IH1 using mn True by simp
      show "?F (Suc m) ! (c - k) =
        (if k < c \<and> c < Suc m then A ! (i * n + c) - f * A ! (k * n + c) else buf0 ! (c - k))"
      proof (cases "c = m")
        case True
        show ?thesis unfolding step True using lt \<open>k < m\<close> by simp
      next
        case False
        then have ne: "m - k \<noteq> c - k" using kc \<open>k < m\<close> by simp
        have "?F (Suc m) ! (c - k) = ?F m ! (c - k)" unfolding step using ne by simp
        then show ?thesis using IH2[OF kc cn] False by (simp add: less_Suc_eq)
      qed
    qed
  qed
qed

lemma child_row_length: "k < n \<Longrightarrow> length (child_row A n k akk i) = n - k"
  unfolding child_row_def Let_def
  using child_fold[of n n k "(replicate (n - k) 0)[0 := 0]" A i "A ! (i * n + k) / akk"] by simp

















lemma gauss_run_length:
  "length A0 = n * n \<Longrightarrow> gauss_run n A0 k = Some (A, s, c) \<Longrightarrow> length A = n * n \<and> k \<le> n"
proof (induction k arbitrary: A s c)
  case 0 then show ?case by simp
next
  case (Suc k)
  from Suc.prems(2) obtain A' s' c' where r: "gauss_run n A0 k = Some (A', s', c')"
    and kn: "k < n" and st: "gauss_step n k A' s' = Some (A, s)"
    by (auto split: option.splits if_splits)
  have "length A' = n * n" using Suc.IH[OF Suc.prems(1) r] by simp
  then show ?case using gauss_step_length[OF kn _ st] kn by simp
qed














lemma fold_product:
  "fold f (List.product xs ys) = fold (\<lambda>i. fold (\<lambda>j. f (i, j)) ys) xs"
  by (induction xs) (simp_all add: fold_map comp_def)









section \<open>Lemmas about the operations\<close>



























lemma cells_are_cong: "(\<And>i j. f i j = g i j) \<Longrightarrow> cells_are f r c x = cells_are g r c x"
  unfolding cells_are_def by (auto split: option.splits)



subsection \<open>The determinant functions under granted requests\<close>









section \<open>Lemmas about the QR iteration\<close>

lemma flat_stores:
  assumes len: "length A = n * n"
  shows "(\<forall>p \<in> set ps. fst p < n \<and> snd p < n) \<Longrightarrow>
     length (fold (\<lambda>(i, j) A. A[i * n + j := f i j]) ps A) = n * n \<and>
     (\<forall>i j. i < n \<and> j < n \<longrightarrow>
        fold (\<lambda>(i, j) A. A[i * n + j := f i j]) ps A ! (i * n + j) =
          (if (i, j) \<in> set ps then f i j else A ! (i * n + j)))"
proof (induction ps rule: rev_induct)
  case Nil then show ?case using len by simp
next
  case (snoc p ps)
  obtain a b where p: "p = (a, b)" by (cases p)
  have ab: "a < n" "b < n" using snoc.prems p by auto
  let ?B = "fold (\<lambda>(i, j) A. A[i * n + j := f i j]) ps A"
  from snoc have IH: "length ?B = n * n"
    "\<And>i j. i < n \<Longrightarrow> j < n \<Longrightarrow> ?B ! (i * n + j) = (if (i, j) \<in> set ps then f i j else A ! (i * n + j))"
    by auto
  have step: "fold (\<lambda>(i, j) A. A[i * n + j := f i j]) (ps @ [p]) A = ?B[a * n + b := f a b]"
    unfolding p by simp
  show ?case unfolding step using IH ab p
    by (auto simp: nth_list_update idx_inj idx_lt)
qed

lemma fill_flat_fold:
  "fill_flat f n A = fold (\<lambda>(i, j) A. A[i * n + j := f i j]) (List.product [0..<n] [0..<n]) A"
  unfolding fill_flat_def fold_product by simp

lemma fill_flat_props:
  assumes "length A = n * n"
  shows "length (fill_flat f n A) = n * n"
    and "\<And>i j. i < n \<Longrightarrow> j < n \<Longrightarrow> fill_flat f n A ! (i * n + j) = f i j"
proof -
  have b: "\<forall>p \<in> set (List.product [0..<n] [0..<n]). fst p < n \<and> snd p < n" by auto
  note F = flat_stores[OF assms b, of f, folded fill_flat_fold]
  show "length (fill_flat f n A) = n * n" using F by simp
  show "\<And>i j. i < n \<Longrightarrow> j < n \<Longrightarrow> fill_flat f n A ! (i * n + j) = f i j" using F by simp
qed

lemma copy_matrix_flat_props:
  assumes "n = nat (rows M)"
  shows "length (copy_matrix_flat M) = n * n"
    and "\<And>i j. i < n \<Longrightarrow> j < n \<Longrightarrow> copy_matrix_flat M ! (i * n + j) = data M ! i ! j"
  unfolding copy_matrix_flat_def Let_def assms[symmetric]
  using fill_flat_props[where A = "fresh n" and n = n and f = "\<lambda>i j. data M ! i ! j"]
  by (simp_all add: fresh_def)

lemma is_converged_iff:
  "is_converged A n tol \<longleftrightarrow> (\<forall>i j. i < n \<and> j < n \<and> i \<noteq> j \<longrightarrow> \<bar>A ! (i * n + j)\<bar> \<le> tol)"
  unfolding is_converged_def list_all_iff by (simp add: not_less) (metis atLeastLessThan_iff zero_le)

lemma qr_iterate_converged:
  "is_converged A n tol \<Longrightarrow> qr_iterate n max_iter tol iter A V = Some (iter, A, V)"
  by (simp add: qr_iterate.simps[of n max_iter tol iter A V])



lemma qr_rounds_Suc_Some:
  assumes "qr_rounds n tol A0 V0 (Suc j) \<noteq> None" and "qr_rounds n tol A0 V0 j = Some (A, V)"
  shows "\<not> is_converged A n tol \<and>
     (\<exists>Q R. qr_decompose_single A n = Some (Q, R) \<and>
        qr_rounds n tol A0 V0 (Suc j) = Some (matmul_single R Q n, matmul_single V Q n))"
  using assms by (auto split: option.splits if_splits)








lemma eigen_eval_converged:
  assumes "rows M = cols M" and "grant e Workspace" and "grant e QRBuffers"
    and "is_converged (copy_matrix_flat M) (nat (rows M)) tol"
  shows "eigen_qr_single e (Some M) max_iter tol t =
     (Some \<lparr> eigenvalues = extract_eigenvalues (copy_matrix_flat M) (nat (rows M)),
             eigenvectors =
               (case create_matrix (grant e) (Some ''Eigenvectors'') (rows M) (rows M) of
                  None \<Rightarrow> None
                | Some ev \<Rightarrow> Some (copy_flat_to_matrix (identity_flat (nat (rows M))) ev)),
             er_n = rows M, iterations = 0 \<rparr>,
      map_option (\<lambda>_. elapsed e) t)"
  unfolding eigen_qr_single_def
  using assms(1)[symmetric] assms(2,3) qr_iterate_converged[OF assms(4)]
  by (simp add: Let_def)

lemma D2_converged: "is_converged (copy_matrix_flat D2) (nat (rows D2)) (1 / 10 ^ 10)"
  by code_simp

lemma D2_eigenvalues: "extract_eigenvalues (copy_matrix_flat D2) (nat (rows D2)) = [2, 3]"
  by code_simp





section \<open>The claims\<close>









text \<open>
  Claim C5, as stated, fails: for the diagonal matrix \<open>diag(2, 3)\<close>, with the defaults of
  500 rounds and tolerance \<open>1e-10\<close>, the returned iteration count is 0, not 1.
\<close>

theorem diagonal_one_round_counterexample:
  "iterations (the (fst (eigen_qr_single all_granted (Some D2) 500 (1 / 10 ^ 10) None))) = 0 \<and>
   iterations (the (fst (eigen_qr_single all_granted (Some D2) 500 (1 / 10 ^ 10) None))) \<noteq> 1 \<and>
   eigenvalues (the (fst (eigen_qr_single all_granted (Some D2) 500 (1 / 10 ^ 10) None))) = [2, 3]"
proof -
  have sq: "rows D2 = cols D2" by code_simp
  have g: "grant all_granted Workspace" "grant all_granted QRBuffers" by code_simp+
  show ?thesis
    unfolding eigen_eval_converged[OF sq g D2_converged] D2_eigenvalues by simp
qed

text \<open>
  Claim C5, amended. For a square matrix whose off-diagonal entries are all zero and a
  tolerance that is not negative, \<open>eigen_qr_single\<close> finds the input converged before
  the first round: it returns the diagonal entries, in their order, as eigenvalues and
  the iteration count 0.
\<close>

theorem diagonal_matrix_needs_no_round:
  assumes "rows M = cols M" and "n = nat (rows M)"
    and "\<forall>i j. i < n \<and> j < n \<and> i \<noteq> j \<longrightarrow> data M ! i ! j = 0"
    and "0 \<le> tol" and "grant e Workspace" and "grant e QRBuffers"
  shows "\<exists>r. fst (eigen_qr_single e (Some M) max_iter tol t) = Some r \<and>
           iterations r = 0 \<and> eigenvalues r = map (\<lambda>i. data M ! i ! i) [0..<n]"
proof -
  note C = copy_matrix_flat_props[OF assms(2)]
  have conv: "is_converged (copy_matrix_flat M) n tol"
    unfolding is_converged_iff using C(2) assms(3,4) by simp
  have it: "qr_iterate (nat (rows M)) max_iter tol 0 (copy_matrix_flat M) (identity_flat (nat (rows M)))
      = Some (0, copy_matrix_flat M, identity_flat (nat (rows M)))"
    using qr_iterate_converged[OF conv] unfolding assms(2) .
  have ev: "extract_eigenvalues (copy_matrix_flat M) (nat (rows M)) = map (\<lambda>i. data M ! i ! i) [0..<n]"
    unfolding extract_eigenvalues_def assms(2)[symmetric] using C(2) by simp
  show ?thesis unfolding eigen_qr_single_def using assms(1,5,6) it ev by (simp add: Let_def)
qed

theorem diagonal_matrix_needs_no_round_witness:
  "rows D2 = cols D2 \<and>
   list_all (\<lambda>i. list_all (\<lambda>j. i = j \<or> data D2 ! i ! j = 0) [0..<2]) [0..<2] \<and>
   (\<exists>r. fst (eigen_qr_single all_granted (Some D2) 500 (1 / 10 ^ 10) None) = Some r \<and>
        iterations r = 0 \<and> eigenvalues r = [2, 3])"
proof -
  have h1: "rows D2 = cols D2" by code_simp
  have h2: "(2::nat) = nat (rows D2)" by code_simp
  have l3: "list_all (\<lambda>i. list_all (\<lambda>j. i = j \<or> data D2 ! i ! j = 0) [0..<2]) [0..<2]"
    by code_simp
  have h3: "\<forall>i j. i < 2 \<and> j < 2 \<and> i \<noteq> j \<longrightarrow> data D2 ! i ! j = 0"
  proof (intro allI impI)
    fix i j :: nat assume "i < 2 \<and> j < 2 \<and> i \<noteq> j"
    then have "(i = 0 \<and> j = 1) \<or> (i = 1 \<and> j = 0)" by auto
    then show "data D2 ! i ! j = 0" by (auto simp: D2_def)
  qed
  have h4: "(0::real) \<le> 1 / 10 ^ 10" by simp
  have g: "grant all_granted Workspace" "grant all_granted QRBuffers" by code_simp+
  have d: "map (\<lambda>i. data D2 ! i ! i) [0..<2] = [2, 3]" by code_simp
  show ?thesis
    using diagonal_matrix_needs_no_round[OF h1 h2 h3 h4 g, of 500 None] h1 l3 unfolding d by simp
qed




text \<open>
  Claim C7, at a failing input. Two \<open>1 \<times> 2\<close> matrices are added; the single-threaded and
  the OpenMP strategy succeed, the multiprocess strategy fails at its first fork and so
  leaves its timing cell as the caller's struct held it. The selection compares that
  stale cell like a measured time, prefers it, and the harness returns \<open>NULL\<close> although
  two strategies succeeded. When all three succeed on the same input the harness returns
  the result of the fastest.
\<close>

theorem harness_prefers_failed_strategy:
  "fst (add_matrices_single env_single (Some A12) (Some B12) (Some ''C_single'') 0) \<noteq> None \<and>
   fst (add_matrices_openmp id env_openmp (Some A12) (Some B12) (Some ''C_openmp'') 0) \<noteq> None \<and>
   add_matrices_multiprocess no_elem_fork (Some A12) (Some B12) (Some ''C_multiproc'') 0 = (None, 0) \<and>
   run_operation_comparison id env_single env_openmp no_elem_fork
       (Some A12) (Some B12) (Some ''C'') (Some ''Addition'') (Some metrics0) =
     (None, Some \<lparr>single_thread_time = 3, openmp_time = 2, multiprocess_time = 0\<rparr>) \<and>
   run_operation_comparison id env_single env_openmp all_granted
       (Some A12) (Some B12) (Some ''C'') (Some ''Addition'') (Some metrics0) =
     (Some \<lparr>name = ''C'', rows = 1, cols = 2, data = [[11, 22]]\<rparr>,
      Some \<lparr>single_thread_time = 3, openmp_time = 2, multiprocess_time = 1\<rparr>)"
  by code_simp

theorem harness_prefers_failed_strategy_witness:
  "fst (run_operation_comparison id env_single env_openmp no_elem_fork
         (Some A12) (Some B12) (Some ''C'') (Some ''Addition'') (Some metrics0)) = None"
  using harness_prefers_failed_strategy by simp





text \<open>
  Claim C10. A determinant function returns 0 or 1. When it returns 0 the cell of
  \<open>out_det\<close> is as it was; a \<open>NULL\<close> matrix, a \<open>NULL\<close> output pointer, a matrix that is not
  square and a refused allocation (for the multiprocess variant also a refused pipe,
  fork or buffer, which abort its loop) each make it return 0.
\<close>

theorem failure_leaves_out_det:
  "(fst (determinant_gauss_partial_pivot res m out_det) = 0 \<or>
    fst (determinant_gauss_partial_pivot res m out_det) = 1) \<and>
   (fst (determinant_gauss_partial_pivot res m out_det) = 0 \<longrightarrow>
      snd (determinant_gauss_partial_pivot res m out_det) = out_det) \<and>
   (m = None \<or> out_det = None \<or> rows (the m) \<noteq> cols (the m) \<or> \<not> res Workspace \<longrightarrow>
      determinant_gauss_partial_pivot res m out_det = (0, out_det)) \<and>
   (fst (determinant_single e m out_det t) = 0 \<or> fst (determinant_single e m out_det t) = 1) \<and>
   (fst (determinant_single e m out_det t) = 0 \<longrightarrow>
      fst (snd (determinant_single e m out_det t)) = out_det) \<and>
   (m = None \<or> out_det = None \<or> rows (the m) \<noteq> cols (the m) \<or> \<not> grant e Workspace \<longrightarrow>
      determinant_single e m out_det t = (0, out_det, t)) \<and>
   (fst (determinant_openmp sched e m out_det t) = 0 \<or>
    fst (determinant_openmp sched e m out_det t) = 1) \<and>
   (fst (determinant_openmp sched e m out_det t) = 0 \<longrightarrow>
      fst (snd (determinant_openmp sched e m out_det t)) = out_det) \<and>
   (m = None \<or> out_det = None \<or> rows (the m) \<noteq> cols (the m) \<or> \<not> grant e Workspace \<longrightarrow>
      determinant_openmp sched e m out_det t = (0, out_det, t)) \<and>
   (fst (determinant_multiprocess e m out_det t) = 0 \<or>
    fst (determinant_multiprocess e m out_det t) = 1) \<and>
   (fst (determinant_multiprocess e m out_det t) = 0 \<longrightarrow>
      fst (snd (determinant_multiprocess e m out_det t)) = out_det) \<and>
   (m = None \<or> out_det = None \<or> rows (the m) \<noteq> cols (the m) \<or> \<not> grant e Workspace \<or>
    mp_loop (grant e) (nat (rows (the m))) 0 (copy_matrix_contiguous (the m)) 1 = Aborted \<longrightarrow>
      determinant_multiprocess e m out_det t = (0, out_det, t))"
proof -
  have g: "(fst (determinant_gauss_partial_pivot res m out_det) = 0 \<or>
    fst (determinant_gauss_partial_pivot res m out_det) = 1) \<and>
   (fst (determinant_gauss_partial_pivot res m out_det) = 0 \<longrightarrow>
      snd (determinant_gauss_partial_pivot res m out_det) = out_det) \<and>
   (m = None \<or> out_det = None \<or> rows (the m) \<noteq> cols (the m) \<or> \<not> res Workspace \<longrightarrow>
      determinant_gauss_partial_pivot res m out_det = (0, out_det))"
    unfolding determinant_gauss_partial_pivot_def
    by (simp add: Let_def split: elim_result.split)
  have s: "(fst (determinant_single e m out_det t) = 0 \<or> fst (determinant_single e m out_det t) = 1) \<and>
   (fst (determinant_single e m out_det t) = 0 \<longrightarrow>
      fst (snd (determinant_single e m out_det t)) = out_det) \<and>
   (m = None \<or> out_det = None \<or> rows (the m) \<noteq> cols (the m) \<or> \<not> grant e Workspace \<longrightarrow>
      determinant_single e m out_det t = (0, out_det, t))"
    unfolding determinant_single_def
    by (simp add: Let_def split: elim_result.split)
  have o: "(fst (determinant_openmp sched e m out_det t) = 0 \<or>
    fst (determinant_openmp sched e m out_det t) = 1) \<and>
   (fst (determinant_openmp sched e m out_det t) = 0 \<longrightarrow>
      fst (snd (determinant_openmp sched e m out_det t)) = out_det) \<and>
   (m = None \<or> out_det = None \<or> rows (the m) \<noteq> cols (the m) \<or> \<not> grant e Workspace \<longrightarrow>
      determinant_openmp sched e m out_det t = (0, out_det, t))"
    unfolding determinant_openmp_def
    by (simp add: Let_def split: elim_result.split)
  have p: "(fst (determinant_multiprocess e m out_det t) = 0 \<or>
    fst (determinant_multiprocess e m out_det t) = 1) \<and>
   (fst (determinant_multiprocess e m out_det t) = 0 \<longrightarrow>
      fst (snd (determinant_multiprocess e m out_det t)) = out_det) \<and>
   (m = None \<or> out_det = None \<or> rows (the m) \<noteq> cols (the m) \<or> \<not> grant e Workspace \<or>
    mp_loop (grant e) (nat (rows (the m))) 0 (copy_matrix_contiguous (the m)) 1 = Aborted \<longrightarrow>
      determinant_multiprocess e m out_det t = (0, out_det, t))"
    unfolding determinant_multiprocess_def
    by (simp add: Let_def split: elim_result.split)
  show ?thesis using g s o p by blast
qed

theorem failure_leaves_out_det_witness:
  "determinant_gauss_partial_pivot (\<lambda>_. True) None (Some 7) = (0, Some 7) \<and>
   determinant_gauss_partial_pivot (\<lambda>_. True) (Some M23) (Some 7) = (0, Some 7) \<and>
   determinant_single all_granted (Some M22) None (Some 3) = (0, None, Some 3) \<and>
   determinant_openmp rev no_workspace (Some M22) (Some 7) (Some 3) = (0, Some 7, Some 3) \<and>
   mp_loop (grant no_row_fork) 2 0 (copy_matrix_contiguous M22) 1 = Aborted \<and>
   determinant_multiprocess no_row_fork (Some M22) (Some 7) (Some 3) = (0, Some 7, Some 3) \<and>
   determinant_multiprocess all_granted (Some M22) (Some 7) (Some 3) = (1, Some (- 2), Some 1)"
proof -
  have a: "determinant_gauss_partial_pivot (\<lambda>_. True) None (Some 7) = (0, Some 7)"
    using failure_leaves_out_det[of "\<lambda>_. True" None "Some 7"] by simp
  have sq: "rows (the (Some M23)) \<noteq> cols (the (Some M23))" by code_simp
  have b: "determinant_gauss_partial_pivot (\<lambda>_. True) (Some M23) (Some 7) = (0, Some 7)"
    using failure_leaves_out_det[of "\<lambda>_. True" "Some M23" "Some 7"] sq by blast
  have c: "determinant_single all_granted (Some M22) None (Some 3) = (0, None, Some 3)"
    using failure_leaves_out_det[of _ "Some M22" None all_granted "Some 3"] by simp
  have nw: "\<not> grant no_workspace Workspace" by code_simp
  have d: "determinant_openmp rev no_workspace (Some M22) (Some 7) (Some 3) = (0, Some 7, Some 3)"
    using failure_leaves_out_det[of _ "Some M22" "Some 7" no_workspace "Some 3" rev] nw by blast
  have ab: "mp_loop (grant no_row_fork) 2 0 (copy_matrix_contiguous M22) 1 = Aborted" by code_simp
  have ab': "mp_loop (grant no_row_fork) (nat (rows (the (Some M22)))) 0
      (copy_matrix_contiguous (the (Some M22))) 1 = Aborted" by code_simp
  have f: "determinant_multiprocess no_row_fork (Some M22) (Some 7) (Some 3) = (0, Some 7, Some 3)"
    using failure_leaves_out_det[of _ "Some M22" "Some 7" no_row_fork "Some 3"] ab' by blast
  have ok: "determinant_multiprocess all_granted (Some M22) (Some 7) (Some 3) = (1, Some (- 2), Some 1)"
    by code_simp
  show ?thesis using a b c d ab f ok by simp
qed

end
